theory Spec2Isabelle
  imports Complex_Main "HOL-Library.Multiset"
begin

section \<open>JavaScript values\<close>

text \<open>
  A JavaScript string is a sequence of UTF-16 code units; every non-ASCII character the
  scraper looks for lies in the Basic Multilingual Plane, so one unit each. ASCII
  literals are written through \<open>str\<close>, the others as their code units.
\<close>

type_synonym jsstring = "nat list"

definition str :: "string \<Rightarrow> jsstring" where
  "str s = map of_char s"

text \<open>
  A count read with \<open>parseInt\<close> is an integer or \<open>NaN\<close> (when the digits are missing).
  \<open>IntVal n\<close> is the number whose decimal digits, as \<open>String\<close> prints them, are
  those of \<open>n\<close>; comparing two such numbers is comparing the integers.
  Ratings are one-decimal numbers read with \<open>parseFloat\<close>; they are kept as exact
  rationals, on which the comparisons of the source agree with those on doubles.
\<close>

datatype jsint = NaN | IntVal int

text \<open>\<open>x > 0\<close>: false on \<open>NaN\<close>.\<close>

fun gt0 :: "jsint \<Rightarrow> bool" where
  "gt0 NaN = False"
| "gt0 (IntVal n) = (0 < n)"

section \<open>String operations\<close>

text \<open>\<open>s.startsWith(p)\<close>, \<open>s.includes(p)\<close> and \<open>s.indexOf(p)\<close> (\<open>None\<close> is \<open>-1\<close>).\<close>

fun startsWith :: "jsstring \<Rightarrow> jsstring \<Rightarrow> bool" where
  "startsWith s [] = True"
| "startsWith [] (p # ps) = False"
| "startsWith (x # xs) (p # ps) = (x = p \<and> startsWith xs ps)"

fun includesStr :: "jsstring \<Rightarrow> jsstring \<Rightarrow> bool" where
  "includesStr [] p = (p = [])"
| "includesStr (x # xs) p = (startsWith (x # xs) p \<or> includesStr xs p)"

fun indexOfFrom :: "nat \<Rightarrow> jsstring \<Rightarrow> jsstring \<Rightarrow> nat option" where
  "indexOfFrom i [] p = (if p = [] then Some i else None)"
| "indexOfFrom i (x # xs) p =
     (if startsWith (x # xs) p then Some i else indexOfFrom (Suc i) xs p)"

definition indexOf :: "jsstring \<Rightarrow> jsstring \<Rightarrow> nat option" where
  "indexOf s p = indexOfFrom 0 s p"

text \<open>
  \<open>s.replace(p, r)\<close> with a string pattern: the first occurrence only (the
  replacement is the empty string at every call of the source).
\<close>

definition replace :: "jsstring \<Rightarrow> jsstring \<Rightarrow> jsstring \<Rightarrow> jsstring" where
  "replace s p r =
     (case indexOf s p of None \<Rightarrow> s | Some i \<Rightarrow> take i s @ r @ drop (i + length p) s)"

text \<open>\<open>s.split(sep)\<close> for a separator of one unit; the empty string gives one empty piece.\<close>

fun splitLoop :: "nat \<Rightarrow> jsstring \<Rightarrow> jsstring \<Rightarrow> jsstring list" where
  "splitLoop sep cur [] = [cur]"
| "splitLoop sep cur (x # xs) =
     (if x = sep then cur # splitLoop sep [] xs else splitLoop sep (cur @ [x]) xs)"

definition split :: "jsstring \<Rightarrow> nat \<Rightarrow> jsstring list" where
  "split s sep = splitLoop sep [] s"

text \<open>\<open>xs.join(sep)\<close>.\<close>

fun join :: "jsstring \<Rightarrow> jsstring list \<Rightarrow> jsstring" where
  "join sep [] = []"
| "join sep [x] = x"
| "join sep (x # y # ys) = x @ sep @ join sep (y # ys)"

text \<open>The white space and line terminators that \<open>trim\<close> removes.\<close>

definition isWhiteSpace :: "nat \<Rightarrow> bool" where
  "isWhiteSpace c =
     ((9 \<le> c \<and> c \<le> 13) \<or> c = 32 \<or> c = 160 \<or> c = 5760 \<or> (8192 \<le> c \<and> c \<le> 8202)
      \<or> c = 8232 \<or> c = 8233 \<or> c = 8239 \<or> c = 8287 \<or> c = 12288 \<or> c = 65279)"

definition trim :: "jsstring \<Rightarrow> jsstring" where
  "trim s = rev (dropWhile isWhiteSpace (rev (dropWhile isWhiteSpace s)))"

text \<open>
  \<open>toLowerCase\<close> on the capital letters of ASCII, Latin-1, Cyrillic and the
  full-width forms; units outside these ranges are left as they are.
\<close>

definition lowerUnit :: "nat \<Rightarrow> nat" where
  "lowerUnit c =
     (if 65 \<le> c \<and> c \<le> 90 then c + 32
      else if 192 \<le> c \<and> c \<le> 222 \<and> c \<noteq> 215 then c + 32
      else if 1024 \<le> c \<and> c \<le> 1039 then c + 80
      else if 1040 \<le> c \<and> c \<le> 1071 then c + 32
      else if 65313 \<le> c \<and> c \<le> 65338 then c + 32
      else c)"

definition toLowerCase :: "jsstring \<Rightarrow> jsstring" where
  "toLowerCase s = map lowerUnit s"

definition isDigit :: "nat \<Rightarrow> bool" where
  "isDigit c = (48 \<le> c \<and> c \<le> 57)"

definition digitsValue :: "jsstring \<Rightarrow> nat" where
  "digitsValue ds = foldl (\<lambda>acc c. acc * 10 + (c - 48)) 0 ds"

text \<open>
  \<open>parseInt(s)\<close> without a radix: leading white space is passed, then a sign, and the
  value is that of the digits that follow, \<open>NaN\<close> when there is none. (No string that
  reaches \<open>parseInt\<close> in the source starts with \<open>0x\<close>, the one other prefix it reads.)
\<close>

definition parseInt :: "jsstring \<Rightarrow> jsint" where
  "parseInt s =
     (let t = dropWhile isWhiteSpace s;
          negative = (take 1 t = [45]);
          body = (if take 1 t = [45] \<or> take 1 t = [43] then drop 1 t else t);
          ds = takeWhile isDigit body
      in if ds = [] then NaN
         else IntVal (if negative then - int (digitsValue ds) else int (digitsValue ds)))"

text \<open>\<open>a < b\<close> and \<open>a > b\<close> with a left side that may be \<open>NaN\<close>.\<close>

fun jsLess :: "jsint \<Rightarrow> int \<Rightarrow> bool" where
  "jsLess NaN b = False"
| "jsLess (IntVal a) b = (a < b)"

fun jsGreater :: "jsint \<Rightarrow> int \<Rightarrow> bool" where
  "jsGreater NaN b = False"
| "jsGreater (IntVal a) b = (a > b)"

text \<open>The decimal digits of a natural number.\<close>

fun showNat :: "nat \<Rightarrow> jsstring" where
  "showNat n = (if n < 10 then [48 + n] else showNat (n div 10) @ [48 + n mod 10])"

declare showNat.simps [simp del]

text \<open>
  \<open>String(x)\<close> of an integral number, which is also what a template literal and
  \<open>parseInt(x)\<close> make of it: the decimal digits up to 21 of them, and from 22 digits
  on (1e21 and above) the first digit, a point and the further digits without the
  trailing zeros, and the exponent, as in \<open>2e+21\<close> or \<open>1.5e+22\<close>.
\<close>

definition stripTrailingZeros :: "jsstring \<Rightarrow> jsstring" where
  "stripTrailingZeros ds = rev (dropWhile (\<lambda>c. c = 48) (rev ds))"

definition numberToString :: "int \<Rightarrow> jsstring" where
  "numberToString n =
     (let ds = showNat (nat \<bar>n\<bar>);
          sign = (if n < 0 then [45] else [])
      in if length ds \<le> 21 then sign @ ds
         else (let significant = stripTrailingZeros ds in
               sign @ take 1 significant
               @ (if drop 1 significant = [] then [] else 46 # drop 1 significant)
               @ [101, 43] @ showNat (length ds - 1)))"

text \<open>
  \<open>parseInt(x) || 0\<close> on a number field: the number goes through its string, so from
  1e21 on only the digit before the point or the exponent is read.
\<close>

fun intOr0 :: "jsint \<Rightarrow> int" where
  "intOr0 NaN = 0"
| "intOr0 (IntVal n) = (case parseInt (numberToString n) of NaN \<Rightarrow> 0 | IntVal k \<Rightarrow> k)"

declare intOr0.simps(2) [simp del]

text \<open>The count itself, 0 when it is \<open>NaN\<close>, and whether its string has no exponent.\<close>

definition countOf :: "jsint \<Rightarrow> int" where
  "countOf x = (case x of NaN \<Rightarrow> 0 | IntVal n \<Rightarrow> n)"

definition plainDigits :: "jsint \<Rightarrow> bool" where
  "plainDigits x = (case x of NaN \<Rightarrow> True | IntVal n \<Rightarrow> \<bar>n\<bar> < 10 ^ 21)"

text \<open>\<open>toLocaleString\<close> with groups of three digits.\<close>

fun group3 :: "jsstring \<Rightarrow> jsstring" where
  "group3 (a # b # c # d # rest) = a # b # c # 44 # group3 (d # rest)"
| "group3 ds = ds"

definition toLocaleString :: "int \<Rightarrow> jsstring" where
  "toLocaleString n =
     (if n < 0 then 45 # rev (group3 (rev (showNat (nat (- n)))))
      else rev (group3 (rev (showNat (nat n)))))"

section \<open>Records\<close>

text \<open>
  The object pushed by \<open>extractBasicList\<close> is a \<open>candidate\<close>; the object built in
  \<open>processChunk\<close> (the spread of target and details, with \<open>detailRating\<close>,
  \<open>detailReviews\<close> and \<open>listText\<close> deleted) is a \<open>merged\<close>. Both extend the fields
  they share.
\<close>

record listing =
  name :: jsstring
  rating :: rat
  reviews :: jsint
  url :: jsstring
  category :: jsstring
  budget :: jsstring
  review :: jsstring

record candidate = listing +
  listText :: jsstring

record merged = listing +
  address :: jsstring
  businessHours :: jsstring

text \<open>The object returned by \<open>getDetailsWithPage\<close>.\<close>

record details =
  d_address :: jsstring
  d_category :: jsstring
  d_budget :: jsstring
  d_businessHours :: jsstring
  detailRating :: rat
  detailReviews :: jsint

text \<open>The \<open>filters\<close> object assembled in \<open>server.js\<close>; \<open>null\<close> is \<open>None\<close>.\<close>

record filters =
  f_address :: jsstring
  f_category :: jsstring
  budgetMin :: "int option"
  budgetMax :: "int option"
  days :: "jsstring list"
  hours :: jsstring
  maxItems :: int

section \<open>retryOperation\<close>

text \<open>
  The operation \<open>fn\<close> acts on the browser, here a world \<open>'w\<close>: a call returns its value
  or the error it throws, and the world after it. \<open>wait\<close> is
  \<open>page.waitForTimeout(delay)\<close>, whose own failure is swallowed. The result is what
  \<open>retryOperation\<close> returns (\<open>Inr\<close>) or throws (\<open>Inl lastError\<close>, \<open>None\<close> being the
  \<open>undefined\<close> of a loop that never ran), the number of calls of \<open>fn\<close>, and the world.
\<close>

definition retryDelay :: nat where
  "retryDelay = 2000"

function retryLoop ::
  "('w \<Rightarrow> ('e + 'a) \<times> 'w) \<Rightarrow> (nat \<Rightarrow> 'w \<Rightarrow> 'w) \<Rightarrow> nat \<Rightarrow> nat \<Rightarrow> 'e option \<Rightarrow> nat \<Rightarrow> 'w
    \<Rightarrow> ('e option + 'a) \<times> nat \<times> 'w" where
  "retryLoop fn wait maxRetries attempt lastError calls w =
     (if attempt \<le> maxRetries then
        (case fn w of
           (Inr result, w') \<Rightarrow> (Inr result, Suc calls, w')
         | (Inl error, w') \<Rightarrow>
             retryLoop fn wait maxRetries (Suc attempt) (Some error) (Suc calls)
               (if attempt < maxRetries then wait (retryDelay * attempt) w' else w'))
      else (Inl lastError, calls, w))"
  by pat_completeness auto
termination
  by (relation "measure (\<lambda>(fn, wait, maxRetries, attempt, lastError, calls, w). Suc maxRetries - attempt)") auto

definition retryOperation ::
  "('w \<Rightarrow> ('e + 'a) \<times> 'w) \<Rightarrow> (nat \<Rightarrow> 'w \<Rightarrow> 'w) \<Rightarrow> nat \<Rightarrow> 'w \<Rightarrow> ('e option + 'a) \<times> nat \<times> 'w" where
  "retryOperation fn wait maxRetries w = retryLoop fn wait maxRetries 1 None 0 w"

section \<open>Merging a candidate with its details (processChunk)\<close>

definition mergeResult :: "candidate \<Rightarrow> details \<Rightarrow> merged" where
  "mergeResult target det = \<lparr>
     name = name target,
     rating = (if detailRating det > 0 then detailRating det else rating target),
     reviews = (if gt0 (detailReviews det) then detailReviews det else reviews target),
     url = url target,
     category =
       (if category target \<noteq> [] \<and> category target \<noteq> str ''Unknown'' then category target
        else if d_category det \<noteq> [] then d_category det else str ''Unknown''),
     budget =
       (if budget target \<noteq> [] then budget target
        else if d_budget det \<noteq> [] then d_budget det else []),
     review = (if review target \<noteq> [] then review target else []),
     address = d_address det,
     businessHours = d_businessHours det \<rparr>"

section \<open>Removing duplicate urls (extractBasicList)\<close>

text \<open>The loop over \<open>results\<close> with the \<open>Map\<close> of seen urls and the \<open>unique\<close> array.\<close>

fun dedupLoop :: "candidate list \<Rightarrow> (jsstring \<rightharpoonup> bool) \<Rightarrow> candidate list \<Rightarrow> candidate list" where
  "dedupLoop [] urlMap unique = unique"
| "dedupLoop (item # rest) urlMap unique =
     (if urlMap (url item) = None
      then dedupLoop rest (urlMap(url item \<mapsto> True)) (unique @ [item])
      else dedupLoop rest urlMap unique)"

definition dedupe :: "candidate list \<Rightarrow> candidate list" where
  "dedupe results = dedupLoop results Map.empty []"

text \<open>
  The records the loop keeps out of a list, given the urls already seen: the loop
  without its accumulator, used to reason about it.
\<close>

fun keepFirst :: "jsstring set \<Rightarrow> candidate list \<Rightarrow> candidate list" where
  "keepFirst seen [] = []"
| "keepFirst seen (x # xs) =
     (if url x \<in> seen then keepFirst seen xs else x # keepFirst (insert (url x) seen) xs)"

text \<open>A candidate as \<open>extractBasicList\<close> pushes it when the text holds no category, budget or quote.\<close>

definition listed :: "jsstring \<Rightarrow> jsstring \<Rightarrow> rat \<Rightarrow> jsint \<Rightarrow> candidate" where
  "listed nm u r n = \<lparr> name = nm, rating = r, reviews = n, url = u, category = str ''Unknown'',
     budget = [], review = [], listText = nm \<rparr>"

section \<open>Ranking the matched results (search)\<close>

text \<open>The comparator passed to \<open>finalResults.sort\<close>.\<close>

definition compareResults :: "merged \<Rightarrow> merged \<Rightarrow> rat" where
  "compareResults a b =
     (let ratingA = rating a; ratingB = rating b in
      if ratingB \<noteq> ratingA then ratingB - ratingA
      else (let reviewsA = intOr0 (reviews a); reviewsB = intOr0 (reviews b) in
            of_int (reviewsB - reviewsA)))"

text \<open>
  \<open>Array.prototype.sort\<close> is stable: an element goes before the first element that the
  comparator puts strictly after it, and stays behind its equals that came earlier.
\<close>

fun insertSorted :: "('a \<Rightarrow> 'a \<Rightarrow> rat) \<Rightarrow> 'a \<Rightarrow> 'a list \<Rightarrow> 'a list" where
  "insertSorted cmp x [] = [x]"
| "insertSorted cmp x (y # ys) =
     (if cmp x y \<le> 0 then x # y # ys else y # insertSorted cmp x ys)"

definition sortWith :: "('a \<Rightarrow> 'a \<Rightarrow> rat) \<Rightarrow> 'a list \<Rightarrow> 'a list" where
  "sortWith cmp xs = foldr (insertSorted cmp) xs []"

definition sortResults :: "merged list \<Rightarrow> merged list" where
  "sortResults finalResults = sortWith compareResults finalResults"

text \<open>The sort key that the comparator orders by, and the order it induces.\<close>

definition rankKey :: "merged \<Rightarrow> rat \<times> int" where
  "rankKey a = (rating a, intOr0 (reviews a))"

definition rankedBefore :: "merged \<Rightarrow> merged \<Rightarrow> bool" where
  "rankedBefore a b =
     (rating a > rating b \<or> (rating a = rating b \<and> intOr0 (reviews a) \<ge> intOr0 (reviews b)))"

section \<open>Regular expressions of the source\<close>

text \<open>\<open>s.match(re)\<close> without the global flag: the match at the leftmost position that has one.\<close>

fun firstMatch :: "(jsstring \<Rightarrow> 'a option) \<Rightarrow> jsstring \<Rightarrow> 'a option" where
  "firstMatch m [] = m []"
| "firstMatch m (x # xs) = (case m (x # xs) of Some r \<Rightarrow> Some r | None \<Rightarrow> firstMatch m xs)"

text \<open>
  \<open>(\d{1,2})SEP(\d{2})END\<close> at the start of a string, with an hour of \<open>n\<close> digits:
  the two groups and the length of the match. The greedy \<open>\d{1,2}\<close> tries two digits
  before one.
\<close>

definition hourMinuteAt ::
  "nat \<Rightarrow> jsstring \<Rightarrow> jsstring \<Rightarrow> jsstring \<Rightarrow> (jsstring \<times> jsstring \<times> nat) option" where
  "hourMinuteAt n sep fin s =
     (let h = take n s; afterSep = drop (length sep) (drop n s); m = take 2 afterSep in
      if length h = n \<and> list_all isDigit h \<and> startsWith (drop n s) sep
         \<and> length m = 2 \<and> list_all isDigit m \<and> startsWith (drop 2 afterSep) fin
      then Some (h, m, n + length sep + 2 + length fin) else None)"

definition hourMinute ::
  "jsstring \<Rightarrow> jsstring \<Rightarrow> jsstring \<Rightarrow> (jsstring \<times> jsstring \<times> nat) option" where
  "hourMinute sep fin s =
     (case hourMinuteAt 2 sep fin s of Some r \<Rightarrow> Some r | None \<Rightarrow> hourMinuteAt 1 sep fin s)"

text \<open>
  \<open>s.match(re)\<close> with the global flag: the matched substrings from left to right, the
  search resuming behind each match (\<open>skip\<close> units of the last match are still to pass).
\<close>

fun matchAll :: "(jsstring \<Rightarrow> ('a \<times> 'b \<times> nat) option) \<Rightarrow> nat \<Rightarrow> jsstring \<Rightarrow> jsstring list" where
  "matchAll m skip [] = []"
| "matchAll m skip (x # xs) =
     (if 0 < skip then matchAll m (skip - 1) xs
      else (case m (x # xs) of
              Some (g1, g2, len) \<Rightarrow> take len (x # xs) # matchAll m (len - 1) xs
            | None \<Rightarrow> matchAll m 0 xs))"

section \<open>The time-of-day check (checkOpenAtTime)\<close>

record FilterOutcome =
  passed :: bool
  reason :: jsstring

text \<open>The result \<open>{ passed: true, reason: '' }\<close>.\<close>

definition passedOutcome :: FilterOutcome where
  "passedOutcome = \<lparr> passed = True, reason = [] \<rparr>"

definition failedOutcome :: "jsstring \<Rightarrow> FilterOutcome" where
  "failedOutcome r = \<lparr> passed = False, reason = r \<rparr>"

text \<open>
  \<open>parseInt(h) * 60 + parseInt(m)\<close> on the two groups of digits of a match.
\<close>

definition minutesOf :: "jsstring \<Rightarrow> jsstring \<Rightarrow> nat" where
  "minutesOf h m = digitsValue h * 60 + digitsValue m"

text \<open>\<open>parseTime\<close>: the regular expression is \<open>(\d{1,2}):(\d{2})\<close>; \<open>None\<close> is \<open>null\<close>.\<close>

definition parseTime :: "jsstring \<Rightarrow> nat option" where
  "parseTime timeStr =
     (if timeStr = [] then None
      else (case firstMatch (hourMinute [58] []) timeStr of
              Some (h, m, len) \<Rightarrow> Some (minutesOf h m)
            | None \<Rightarrow> None))"

text \<open>
  \<open>parseBusinessTime\<close>: all matches of \<open>(\d{1,2})\<close> 0x6642 \<open>(\d{2})\<close> 0x5206 (hour and
  minute signs), of which the first two are matched again for their groups. The result
  is the pair (open, close).
\<close>

definition parseBusinessTime :: "jsstring \<Rightarrow> (nat \<times> nat) option" where
  "parseBusinessTime timeStr =
     (case matchAll (hourMinute [26178] [20998]) 0 timeStr of
        m0 # m1 # rest \<Rightarrow>
          (case firstMatch (hourMinute [26178] [20998]) m0 of
             Some (oh, om, ol) \<Rightarrow>
               (case firstMatch (hourMinute [26178] [20998]) m1 of
                  Some (ch, cm, cl) \<Rightarrow> Some (minutesOf oh om, minutesOf ch cm)
                | None \<Rightarrow> None)
           | None \<Rightarrow> None)
      | _ \<Rightarrow> None)"

text \<open>The value of \<open>isOpen\<close> for a window and a target, all in minutes since midnight.\<close>

definition isOpenAt :: "nat \<Rightarrow> nat \<Rightarrow> nat \<Rightarrow> bool" where
  "isOpenAt opn cls targetMinutes =
     (if cls > opn then targetMinutes \<ge> opn \<and> targetMinutes < cls
      else targetMinutes \<ge> opn \<or> targetMinutes < cls)"

text \<open>\<open>day.replace(youbi, '')\<close>, the day name without its suffix 0x66DC 0x65E5.\<close>

definition dayShort :: "jsstring \<Rightarrow> jsstring" where
  "dayShort day = replace day [26332, 26085] []"

text \<open>
  One turn of the loop over the segments: whether it sets \<open>isOpen\<close> (every
  \<open>continue\<close> leaves it false).
\<close>

definition segmentOpen :: "jsstring list \<Rightarrow> nat \<Rightarrow> jsstring \<Rightarrow> bool" where
  "segmentOpen targetDays targetMinutes segment =
     (case indexOf segment [58] of
        None \<Rightarrow> False
      | Some colonIndex \<Rightarrow>
          (let dayPart = take colonIndex segment;
               timePart = drop (colonIndex + 1) segment in
           if targetDays \<noteq> [] \<and> \<not> list_ex (\<lambda>d. includesStr dayPart d) (map dayShort targetDays)
           then False
           else (case parseBusinessTime timePart of
                   None \<Rightarrow> False
                 | Some (opn, cls) \<Rightarrow> isOpenAt opn cls targetMinutes)))"

fun segmentsLoop :: "jsstring list \<Rightarrow> nat \<Rightarrow> jsstring list \<Rightarrow> bool" where
  "segmentsLoop targetDays targetMinutes [] = False"
| "segmentsLoop targetDays targetMinutes (segment # rest) =
     (if segmentOpen targetDays targetMinutes segment then True
      else segmentsLoop targetDays targetMinutes rest)"

text \<open>The text after the target time in the reason of a failed time check.\<close>

definition notOpenAtText :: jsstring where
  "notOpenAtText = [12395, 21942, 26989, 12375, 12390, 12356, 12394, 12356]"

definition checkOpenAtTime :: "jsstring \<Rightarrow> jsstring \<Rightarrow> jsstring list \<Rightarrow> FilterOutcome" where
  "checkOpenAtTime businessHoursText targetTime targetDays =
     (case parseTime targetTime of
        None \<Rightarrow> passedOutcome
      | Some targetMinutes \<Rightarrow>
          (let segments = map trim (split businessHoursText 47);
               foundMatch = segmentsLoop targetDays targetMinutes segments in
           if \<not> foundMatch then failedOutcome (targetTime @ notOpenAtText)
           else passedOutcome))"

section \<open>The post-filter (checkFilters)\<close>

text \<open>
  Each check gives the reason of its early return, or \<open>None\<close> when control goes on
  to the next check.
\<close>

definition checkReviews :: "merged \<Rightarrow> int \<Rightarrow> jsstring option" where
  "checkReviews item minReviews =
     (if minReviews > 0 then
        (let rev = intOr0 (reviews item) in
         if rev < minReviews
         then Some ([12524, 12499, 12517, 12540, 25968, 19981, 36275, 32, 40] @ numberToString rev
                    @ [20214, 32, 60, 32] @ numberToString minReviews @ [20214, 41])
         else None)
      else None)"

text \<open>The keywords of a comma-separated filter, trimmed, the empty ones dropped.\<close>

definition addressKeywords :: "jsstring \<Rightarrow> jsstring list" where
  "addressKeywords s = filter (\<lambda>k. k \<noteq> []) (map trim (split s 44))"

definition categoryKeywords :: "jsstring \<Rightarrow> jsstring list" where
  "categoryKeywords s = filter (\<lambda>k. k \<noteq> []) (map (\<lambda>k. toLowerCase (trim k)) (split s 44))"

definition unknownText :: jsstring where
  "unknownText = [19981, 26126]"

definition checkAddress :: "merged \<Rightarrow> filters \<Rightarrow> jsstring option" where
  "checkAddress item flt =
     (if f_address flt \<noteq> [] \<and> addressKeywords (f_address flt) \<noteq> [] then
        (let addr = address item in
         if \<not> list_ex (\<lambda>keyword. includesStr addr keyword) (addressKeywords (f_address flt))
         then Some ([20303, 25152, 19981, 19968, 33268, 32, 40]
                    @ (if take 20 addr \<noteq> [] then take 20 addr else unknownText) @ str ''...)'')
         else None)
      else None)"

definition checkCategory :: "merged \<Rightarrow> filters \<Rightarrow> jsstring option" where
  "checkCategory item flt =
     (if f_category flt \<noteq> [] \<and> categoryKeywords (f_category flt) \<noteq> [] then
        (let cat = toLowerCase (category item) in
         if \<not> list_ex (\<lambda>keyword. includesStr cat keyword) (categoryKeywords (f_category flt))
         then Some ([12459, 12486, 12468, 12522, 19981, 19968, 33268, 32, 40]
                    @ (if category item \<noteq> [] then category item else unknownText) @ str '')'')
         else None)
      else None)"

text \<open>
  The regular expression of the budget, a yen sign (0xFFE5 or 0xA5) and then
  \<open>([0-9,]+)\<close>: the group at the start of a string. \<open>price\<close> is \<open>parseInt\<close> of the
  group without its commas.
\<close>

definition isYen :: "nat \<Rightarrow> bool" where
  "isYen c = (c = 65509 \<or> c = 165)"

definition isDigitOrComma :: "nat \<Rightarrow> bool" where
  "isDigitOrComma c = (isDigit c \<or> c = 44)"

fun priceAt :: "jsstring \<Rightarrow> jsstring option" where
  "priceAt (y # d # rest) =
     (if isYen y \<and> isDigitOrComma d then Some (takeWhile isDigitOrComma (d # rest)) else None)"
| "priceAt s = None"

definition priceMatch :: "jsstring \<Rightarrow> jsstring option" where
  "priceMatch budgetText = firstMatch priceAt budgetText"

definition priceOf :: "jsstring \<Rightarrow> jsint" where
  "priceOf grp = parseInt (filter (\<lambda>c. c \<noteq> 44) grp)"

text \<open>The two range checks on a price, each with the reason of its early return.\<close>

definition belowBudgetMin :: "jsstring \<Rightarrow> jsint \<Rightarrow> int option \<Rightarrow> jsstring option" where
  "belowBudgetMin budgetText price lowest =
     (case lowest of
        Some lo \<Rightarrow>
          (if jsLess price lo
           then Some ([20104, 31639, 12364, 19979, 38480, 26410, 28288, 32, 40] @ budgetText
                      @ [32, 60, 32, 65509] @ toLocaleString lo @ str '')'')
           else None)
      | None \<Rightarrow> None)"

definition aboveBudgetMax :: "jsstring \<Rightarrow> jsint \<Rightarrow> int option \<Rightarrow> jsstring option" where
  "aboveBudgetMax budgetText price highest =
     (case highest of
        Some hi \<Rightarrow>
          (if jsGreater price hi
           then Some ([20104, 31639, 12364, 19978, 38480, 36229, 36942, 32, 40] @ budgetText
                      @ [32, 62, 32, 65509] @ toLocaleString hi @ str '')'')
           else None)
      | None \<Rightarrow> None)"

definition checkBudget :: "merged \<Rightarrow> filters \<Rightarrow> jsstring option" where
  "checkBudget item flt =
     (if budgetMin flt \<noteq> None \<or> budgetMax flt \<noteq> None then
        (let budgetText = budget item in
         if budgetText \<noteq> [] then
           (case priceMatch budgetText of
              Some grp \<Rightarrow>
                (let price = priceOf grp in
                 case belowBudgetMin budgetText price (budgetMin flt) of
                   Some r \<Rightarrow> Some r
                 | None \<Rightarrow> aboveBudgetMax budgetText price (budgetMax flt))
            | None \<Rightarrow> None)
         else None)
      else None)"

text \<open>
  The closed markers 0x5B9A 0x4F11 and 0x4F11 0x307F, looked for in the lower-cased
  business hours.
\<close>

definition closedMarker :: "jsstring \<Rightarrow> bool" where
  "closedMarker lowerHours =
     (includesStr lowerHours [23450, 20241] \<or> includesStr lowerHours [20241, 12415])"

text \<open>The loop over \<open>filters.days\<close>: the final value of \<open>foundOpenDay\<close>.\<close>

fun daysLoop :: "jsstring \<Rightarrow> jsstring \<Rightarrow> jsstring list \<Rightarrow> bool" where
  "daysLoop hoursText lowerHours [] = False"
| "daysLoop hoursText lowerHours (day # rest) =
     (if closedMarker lowerHours \<and> includesStr hoursText (dayShort day)
      then daysLoop hoursText lowerHours rest
      else if includesStr hoursText (dayShort day) then True
      else daysLoop hoursText lowerHours rest)"

definition checkDays :: "merged \<Rightarrow> filters \<Rightarrow> jsstring option" where
  "checkDays item flt =
     (if days flt \<noteq> [] then
        (let hoursText = businessHours item in
         if hoursText \<noteq> [] then
           (let lowerHours = toLowerCase hoursText;
                foundOpenDay = daysLoop hoursText lowerHours (days flt) in
            if \<not> foundOpenDay
            then Some ([25351, 23450, 26332, 26085, 40] @ join [12539] (map dayShort (days flt))
                       @ [41, 12395, 21942, 26989, 12375, 12390, 12356, 12394, 12356])
            else None)
         else None)
      else None)"

definition checkHours :: "merged \<Rightarrow> filters \<Rightarrow> jsstring option" where
  "checkHours item flt =
     (if hours flt \<noteq> [] then
        (let hoursText = businessHours item in
         if hoursText \<noteq> [] then
           (let timeResult = checkOpenAtTime hoursText (hours flt) (days flt) in
            if \<not> passed timeResult then Some (reason timeResult) else None)
         else None)
      else None)"

definition checkFilters :: "merged \<Rightarrow> int \<Rightarrow> filters \<Rightarrow> FilterOutcome" where
  "checkFilters item minReviews flt =
     (case checkReviews item minReviews of
        Some r \<Rightarrow> failedOutcome r
      | None \<Rightarrow>
     (case checkAddress item flt of
        Some r \<Rightarrow> failedOutcome r
      | None \<Rightarrow>
     (case checkCategory item flt of
        Some r \<Rightarrow> failedOutcome r
      | None \<Rightarrow>
     (case checkBudget item flt of
        Some r \<Rightarrow> failedOutcome r
      | None \<Rightarrow>
     (case checkDays item flt of
        Some r \<Rightarrow> failedOutcome r
      | None \<Rightarrow>
     (case checkHours item flt of
        Some r \<Rightarrow> failedOutcome r
      | None \<Rightarrow> passedOutcome))))))"

section \<open>The post-filter with its exceptions\<close>

text \<open>
  On a record, a minimum and a configuration of the types above, what can throw in
  \<open>checkFilters\<close> and \<open>checkOpenAtTime\<close> is the reading of a property of \<open>null\<close> or
  \<open>undefined\<close>: a group of a match that failed, the \<open>match\<close> method of an element
  behind the end of the array of matches, \<open>toLocaleString\<close> of a bound that is
  \<open>null\<close>. In the functions of this section each such reading is a possible
  \<open>TypeError\<close>, and the tests that the source makes before it are kept as tests.
\<close>

datatype error = TypeError

definition deref :: "'a option \<Rightarrow> error + 'a" where
  "deref v = (case v of None \<Rightarrow> Inl TypeError | Some x \<Rightarrow> Inr x)"

definition andThen :: "error + 'a \<Rightarrow> ('a \<Rightarrow> error + 'b) \<Rightarrow> error + 'b" where
  "andThen r f = (case r of Inl e \<Rightarrow> Inl e | Inr x \<Rightarrow> f x)"

text \<open>\<open>xs[i]\<close>, \<open>undefined\<close> behind the end.\<close>

definition elementAt :: "'a list \<Rightarrow> nat \<Rightarrow> 'a option" where
  "elementAt xs i = (if i < length xs then Some (xs ! i) else None)"

definition parseTimeE :: "jsstring \<Rightarrow> error + nat option" where
  "parseTimeE timeStr =
     (if timeStr = [] then Inr None
      else (let match = firstMatch (hourMinute [58] []) timeStr in
            if match \<noteq> None
            then andThen (deref match) (\<lambda>(h, m, len). Inr (Some (minutesOf h m)))
            else Inr None))"

definition parseBusinessTimeE :: "jsstring \<Rightarrow> error + (nat \<times> nat) option" where
  "parseBusinessTimeE timeStr =
     (let match = matchAll (hourMinute [26178] [20998]) 0 timeStr in
      if match \<noteq> [] \<and> length match \<ge> 2 then
        andThen (deref (elementAt match 0)) (\<lambda>m0.
        andThen (deref (elementAt match 1)) (\<lambda>m1.
          (let opn = firstMatch (hourMinute [26178] [20998]) m0;
               cls = firstMatch (hourMinute [26178] [20998]) m1 in
           if opn \<noteq> None \<and> cls \<noteq> None then
             andThen (deref opn) (\<lambda>(oh, om, ol).
             andThen (deref cls) (\<lambda>(ch, cm, cl).
               Inr (Some (minutesOf oh om, minutesOf ch cm))))
           else Inr None)))
      else Inr None)"

definition segmentOpenE :: "jsstring list \<Rightarrow> nat \<Rightarrow> jsstring \<Rightarrow> error + bool" where
  "segmentOpenE targetDays targetMinutes segment =
     (case indexOf segment [58] of
        None \<Rightarrow> Inr False
      | Some colonIndex \<Rightarrow>
          (let dayPart = take colonIndex segment;
               timePart = drop (colonIndex + 1) segment in
           if targetDays \<noteq> [] \<and> \<not> list_ex (\<lambda>d. includesStr dayPart d) (map dayShort targetDays)
           then Inr False
           else andThen (parseBusinessTimeE timePart) (\<lambda>bizTime.
                  if bizTime = None then Inr False
                  else andThen (deref bizTime) (\<lambda>(opn, cls).
                         Inr (isOpenAt opn cls targetMinutes)))))"

fun segmentsLoopE :: "jsstring list \<Rightarrow> nat \<Rightarrow> jsstring list \<Rightarrow> error + bool" where
  "segmentsLoopE targetDays targetMinutes [] = Inr False"
| "segmentsLoopE targetDays targetMinutes (segment # rest) =
     (case segmentOpenE targetDays targetMinutes segment of
        Inl e \<Rightarrow> Inl e
      | Inr isOpen \<Rightarrow>
          if isOpen then Inr True else segmentsLoopE targetDays targetMinutes rest)"

definition checkOpenAtTimeE :: "jsstring \<Rightarrow> jsstring \<Rightarrow> jsstring list \<Rightarrow> error + FilterOutcome" where
  "checkOpenAtTimeE businessHoursText targetTime targetDays =
     andThen (parseTimeE targetTime) (\<lambda>parsed.
       case parsed of
         None \<Rightarrow> Inr passedOutcome
       | Some targetMinutes \<Rightarrow>
           (let segments = map trim (split businessHoursText 47) in
            andThen (segmentsLoopE targetDays targetMinutes segments) (\<lambda>foundMatch.
              if \<not> foundMatch then Inr (failedOutcome (targetTime @ notOpenAtText))
              else Inr passedOutcome)))"

text \<open>
  \<open>price < bound\<close> and \<open>price > bound\<close> with a bound that may be \<open>null\<close>, which
  counts as 0 in a comparison, and \<open>bound.toLocaleString()\<close>.
\<close>

definition lessThanBound :: "jsint \<Rightarrow> int option \<Rightarrow> bool" where
  "lessThanBound price bound = jsLess price (case bound of Some b \<Rightarrow> b | None \<Rightarrow> 0)"

definition greaterThanBound :: "jsint \<Rightarrow> int option \<Rightarrow> bool" where
  "greaterThanBound price bound = jsGreater price (case bound of Some b \<Rightarrow> b | None \<Rightarrow> 0)"

definition toLocaleStringOf :: "int option \<Rightarrow> error + jsstring" where
  "toLocaleStringOf bound = andThen (deref bound) (\<lambda>b. Inr (toLocaleString b))"

definition checkBudgetE :: "merged \<Rightarrow> filters \<Rightarrow> error + jsstring option" where
  "checkBudgetE item flt =
     (if budgetMin flt \<noteq> None \<or> budgetMax flt \<noteq> None then
        (let budgetText = budget item in
         if budgetText \<noteq> [] then
           (let found = priceMatch budgetText in
            if found \<noteq> None then
              andThen (deref found) (\<lambda>grp.
                (let price = priceOf grp in
                 if budgetMin flt \<noteq> None \<and> lessThanBound price (budgetMin flt) then
                   andThen (toLocaleStringOf (budgetMin flt)) (\<lambda>lowest.
                     Inr (Some ([20104, 31639, 12364, 19979, 38480, 26410, 28288, 32, 40]
                                @ budgetText @ [32, 60, 32, 65509] @ lowest @ str '')'')))
                 else if budgetMax flt \<noteq> None \<and> greaterThanBound price (budgetMax flt) then
                   andThen (toLocaleStringOf (budgetMax flt)) (\<lambda>highest.
                     Inr (Some ([20104, 31639, 12364, 19978, 38480, 36229, 36942, 32, 40]
                                @ budgetText @ [32, 62, 32, 65509] @ highest @ str '')'')))
                 else Inr None))
            else Inr None)
         else Inr None)
      else Inr None)"

definition checkHoursE :: "merged \<Rightarrow> filters \<Rightarrow> error + jsstring option" where
  "checkHoursE item flt =
     (if hours flt \<noteq> [] then
        (let hoursText = businessHours item in
         if hoursText \<noteq> [] then
           andThen (checkOpenAtTimeE hoursText (hours flt) (days flt)) (\<lambda>timeResult.
             if \<not> passed timeResult then Inr (Some (reason timeResult)) else Inr None)
         else Inr None)
      else Inr None)"

definition checkFiltersE :: "merged \<Rightarrow> int \<Rightarrow> filters \<Rightarrow> error + FilterOutcome" where
  "checkFiltersE item minReviews flt =
     (case checkReviews item minReviews of
        Some r \<Rightarrow> Inr (failedOutcome r)
      | None \<Rightarrow>
     (case checkAddress item flt of
        Some r \<Rightarrow> Inr (failedOutcome r)
      | None \<Rightarrow>
     (case checkCategory item flt of
        Some r \<Rightarrow> Inr (failedOutcome r)
      | None \<Rightarrow>
     andThen (checkBudgetE item flt) (\<lambda>overBudget.
     (case overBudget of
        Some r \<Rightarrow> Inr (failedOutcome r)
      | None \<Rightarrow>
     (case checkDays item flt of
        Some r \<Rightarrow> Inr (failedOutcome r)
      | None \<Rightarrow>
     andThen (checkHoursE item flt) (\<lambda>closed.
     (case closed of
        Some r \<Rightarrow> Inr (failedOutcome r)
      | None \<Rightarrow> Inr passedOutcome))))))))"

section \<open>The pre-filter (search, step 5)\<close>

text \<open>
  What one turn of the loop over the candidates does: it pushes the candidate to
  \<open>targets\<close>, or counts it in one field of \<open>preFilteredOut\<close> and goes on.
\<close>

datatype preFilterVerdict = Target | OutRating | OutReviews | OutCategory | OutBudget

definition preCategoryRejects :: "candidate \<Rightarrow> filters \<Rightarrow> bool" where
  "preCategoryRejects c flt =
     (f_category flt \<noteq> [] \<and> categoryKeywords (f_category flt) \<noteq> [] \<and>
      (let cat = toLowerCase (category c);
           listTextLower = toLowerCase (listText c);
           matchesCategory =
             list_ex (\<lambda>keyword. includesStr cat keyword) (categoryKeywords (f_category flt));
           matchesListText =
             list_ex (\<lambda>keyword. includesStr listTextLower keyword) (categoryKeywords (f_category flt))
       in \<not> matchesCategory \<and> \<not> matchesListText))"

definition preBudgetRejects :: "candidate \<Rightarrow> filters \<Rightarrow> bool" where
  "preBudgetRejects c flt =
     ((budgetMin flt \<noteq> None \<or> budgetMax flt \<noteq> None) \<and> budget c \<noteq> [] \<and>
      (case priceMatch (budget c) of
         Some grp \<Rightarrow>
           (let price = priceOf grp in
            (case budgetMin flt of Some lo \<Rightarrow> jsLess price lo | None \<Rightarrow> False)
            \<or> (case budgetMax flt of Some hi \<Rightarrow> jsGreater price hi | None \<Rightarrow> False))
       | None \<Rightarrow> False))"

definition preFilter :: "candidate \<Rightarrow> rat \<Rightarrow> int \<Rightarrow> filters \<Rightarrow> preFilterVerdict" where
  "preFilter c minRating minReviews flt =
     (let r = rating c; rev = intOr0 (reviews c) in
      if minRating > 0 \<and> r < minRating then OutRating
      else if minReviews > 0 \<and> rev > 0 \<and> rev < minReviews then OutReviews
      else if preCategoryRejects c flt then OutCategory
      else if preBudgetRejects c flt then OutBudget
      else Target)"

section \<open>Reading a rating\<close>

text \<open>
  A digit between \<open>lo\<close> and \<open>hi\<close>, a point and a digit at the start of a string:
  \<open>[1-5]\.[0-9]\<close> in the list (49 to 53) and \<open>[0-9]\.[0-9]\<close> on the detail page
  (48 to 57). \<open>parseFloatMatch\<close> is \<open>parseFloat\<close> on such a match.
\<close>

fun decimalAt :: "nat \<Rightarrow> nat \<Rightarrow> jsstring \<Rightarrow> (jsstring \<times> jsstring \<times> nat) option" where
  "decimalAt lo hi (a # p # c # rest) =
     (if lo \<le> a \<and> a \<le> hi \<and> p = 46 \<and> isDigit c then Some ([a], [c], 3) else None)"
| "decimalAt lo hi s = None"

definition parseFloatMatch :: "jsstring \<Rightarrow> rat" where
  "parseFloatMatch m = of_nat (digitsValue (take 1 m)) + of_nat (digitsValue (drop 2 m)) / 10"

text \<open>
  The list stage (\<open>extractBasicList\<close>): the first match whose value lies between 1.0
  and 5.0, and 0 without one.
\<close>

fun ratingLoop :: "jsstring list \<Rightarrow> rat" where
  "ratingLoop [] = 0"
| "ratingLoop (m # rest) =
     (let val = parseFloatMatch m in if val \<ge> 1 \<and> val \<le> 5 then val else ratingLoop rest)"

definition extractRating :: "jsstring \<Rightarrow> rat" where
  "extractRating text = ratingLoop (matchAll (decimalAt 49 53) 0 text)"

text \<open>
  The detail stage (\<open>getDetailsWithPage\<close>): the first match in the label of the
  rating element, and 0 without one.
\<close>

definition detailRatingOf :: "jsstring \<Rightarrow> rat" where
  "detailRatingOf ratingLabel =
     (case firstMatch (decimalAt 48 57) ratingLabel of
        Some (a, c, len) \<Rightarrow> parseFloatMatch (a @ [46] @ c)
      | None \<Rightarrow> 0)"

section \<open>The pipeline (search)\<close>

text \<open>
  What the browser gives up to the extraction: an exception of a critical step (the
  navigation, the query or \<open>extractBasicList\<close>) with its message, no feed, or the
  \<open>results\<close> parsed from the feed before the duplicate urls are removed.
\<close>

datatype listStage = Threw jsstring | NoFeed | Feed "candidate list"

text \<open>
  An entry of the array returned by \<open>processChunk\<close>: the merged record with the
  outcome of the post-filter, or the message of the exception of the detail fetch.
  A url is fetched once in a run, on one of the tabs; \<open>getDetailsWithPage\<close> is
  the outcome of that fetch, the details or the message of what it throws.
\<close>

datatype itemResult = Checked merged FilterOutcome | Failed jsstring

definition processItem ::
  "(jsstring \<Rightarrow> jsstring + details) \<Rightarrow> int \<Rightarrow> filters \<Rightarrow> candidate \<Rightarrow> itemResult" where
  "processItem getDetailsWithPage minReviews flt target =
     (case getDetailsWithPage (url target) of
        Inl message \<Rightarrow> Failed message
      | Inr det \<Rightarrow>
          (let mergedResult = mergeResult target det in
           Checked mergedResult (checkFilters mergedResult minReviews flt)))"

definition processChunk ::
  "(jsstring \<Rightarrow> jsstring + details) \<Rightarrow> int \<Rightarrow> filters \<Rightarrow> candidate list \<Rightarrow> itemResult list" where
  "processChunk getDetailsWithPage minReviews flt chunk =
     map (processItem getDetailsWithPage minReviews flt) chunk"

text \<open>
  The slices \<open>xs.slice(i, i + n)\<close> for \<open>i = 0, n, 2n, ...\<close> below the length; \<open>n\<close>
  is 3 for the chunks and the number of tabs, at least 1, for the batches.
\<close>

function chunksOf :: "nat \<Rightarrow> 'a list \<Rightarrow> 'a list list" where
  "chunksOf n xs = (if n = 0 \<or> xs = [] then [] else take n xs # chunksOf n (drop n xs))"
  by pat_completeness auto
termination
  by (relation "measure (\<lambda>(n, xs). length xs)") auto

definition maxItemsPerTab :: nat where
  "maxItemsPerTab = 3"

definition numTabs :: "'a list \<Rightarrow> nat" where
  "numTabs targets = min ((length targets + maxItemsPerTab - 1) div maxItemsPerTab) 5"

text \<open>
  The tally of a batch: a passed record is pushed to \<open>finalResults\<close>; the others are
  only counted.
\<close>

fun collectResults :: "itemResult list \<Rightarrow> merged list" where
  "collectResults [] = []"
| "collectResults (Failed message # rest) = collectResults rest"
| "collectResults (Checked mergedResult outcome # rest) =
     (if passed outcome then mergedResult # collectResults rest else collectResults rest)"

definition searchErrorPrefix :: jsstring where
  "searchErrorPrefix = [26908, 32034, 12456, 12521, 12540, 58, 32]"

definition search ::
  "listStage \<Rightarrow> (jsstring \<Rightarrow> jsstring + details) \<Rightarrow> rat \<Rightarrow> int \<Rightarrow> filters
    \<Rightarrow> jsstring + merged list" where
  "search stage getDetailsWithPage minRating minReviews flt =
     (case stage of
        Threw message \<Rightarrow> Inl (searchErrorPrefix @ message)
      | NoFeed \<Rightarrow> Inr []
      | Feed results \<Rightarrow>
          (let candidates = dedupe results in
           if candidates = [] then Inr []
           else
             (let targets = filter (\<lambda>c. preFilter c minRating minReviews flt = Target) candidates in
              if targets = [] then Inr []
              else
                (let chunks = chunksOf maxItemsPerTab targets;
                     batches = chunksOf (numTabs targets) chunks;
                     batchResults =
                       map (\<lambda>batch. map (processChunk getDetailsWithPage minReviews flt) batch) batches;
                     finalResults = concat (map (\<lambda>b. collectResults (concat b)) batchResults)
                 in Inr (sortResults finalResults)))))"

section \<open>Example values\<close>

text \<open>A configuration in which every filter is off, and a merged record without details.\<close>

definition plainFilters :: filters where
  "plainFilters = \<lparr> f_address = [], f_category = [], budgetMin = None, budgetMax = None,
     days = [], hours = [], maxItems = 0 \<rparr>"

definition plainResult :: merged where
  "plainResult = \<lparr> name = str ''A'', rating = 45 / 10, reviews = IntVal 10, url = str ''u1'',
     category = str ''Unknown'', budget = [], review = [], address = [], businessHours = [] \<rparr>"

text \<open>The details of a page on which nothing was found.\<close>

definition plainDetails :: details where
  "plainDetails = \<lparr> d_address = [], d_category = str ''Unknown'', d_budget = [],
     d_businessHours = [], detailRating = 0, detailReviews = IntVal 0 \<rparr>"

text \<open>Two candidates of distinct urls.\<close>

definition firstListed :: candidate where
  "firstListed = listed (str ''A'') (str ''u1'') (45 / 10) (IntVal 10)"

definition secondListed :: candidate where
  "secondListed = listed (str ''B'') (str ''u2'') (48 / 10) (IntVal 2)"

section \<open>Properties of the numbers read through their strings\<close>

text \<open>
  Below 1e21 the string of a number is its digits, and \<open>parseInt\<close> gives the number
  back.
\<close>

lemma showNat_digits: "showNat m \<noteq> [] \<and> list_all isDigit (showNat m)"
proof (induction m rule: showNat.induct)
  case (1 n)
  show ?case
  proof (cases "n < 10")
    case True
    then show ?thesis by (simp add: showNat.simps[of n] isDigit_def)
  next
    case False
    have "n mod 10 < 10" by simp
    then have "isDigit (48 + n mod 10)" by (simp add: isDigit_def)
    with False 1 show ?thesis by (simp add: showNat.simps[of n])
  qed
qed

lemma digitsValue_snoc: "digitsValue (xs @ [c]) = digitsValue xs * 10 + (c - 48)"
  by (simp add: digitsValue_def)

lemma digitsValue_showNat: "digitsValue (showNat m) = m"
proof (induction m rule: showNat.induct)
  case (1 n)
  show ?case
  proof (cases "n < 10")
    case True
    then show ?thesis by (simp add: showNat.simps[of n] digitsValue_def)
  next
    case False
    with 1 show ?thesis by (simp add: showNat.simps[of n] digitsValue_snoc)
  qed
qed

lemma length_showNat: "0 < k \<Longrightarrow> m < 10 ^ k \<Longrightarrow> length (showNat m) \<le> k"
proof (induction m arbitrary: k rule: showNat.induct)
  case (1 n)
  show ?case
  proof (cases "n < 10")
    case True
    with 1 show ?thesis by (simp add: showNat.simps[of n])
  next
    case False
    with "1.prems" have k: "1 < k" by (cases "k = 1") auto
    then obtain j where j: "k = Suc j" "0 < j" by (cases k) auto
    with "1.prems" have "n div 10 < 10 ^ j" by (simp add: less_mult_imp_div_less mult.commute)
    with 1(1)[OF False j(2)] have "length (showNat (n div 10)) \<le> j" by simp
    with False j show ?thesis by (simp add: showNat.simps[of n])
  qed
qed

lemma parseInt_digits:
  assumes "ds \<noteq> []" "list_all isDigit ds"
  shows "parseInt ds = IntVal (int (digitsValue ds))"
    and "parseInt (45 # ds) = IntVal (- int (digitsValue ds))"
proof -
  from assms obtain d rest where dr: "ds = d # rest" and d: "isDigit d"
    by (cases ds) auto
  have tw: "takeWhile isDigit ds = ds"
    using assms(2) by (simp add: list_all_iff)
  have dw: "dropWhile isWhiteSpace ds = ds"
    using dr d by (simp add: isDigit_def isWhiteSpace_def)
  have t1: "take 1 ds \<noteq> [45]" "take 1 ds \<noteq> [43]"
    using dr d by (auto simp: isDigit_def)
  show "parseInt ds = IntVal (int (digitsValue ds))"
    unfolding parseInt_def Let_def dw using t1 assms(1) by (simp only: tw if_False simp_thms)
  have dw': "dropWhile isWhiteSpace (45 # ds) = 45 # ds"
    by (simp add: isWhiteSpace_def)
  have t2: "take 1 (45 # ds) = [45]" "drop 1 (45 # ds) = ds"
    by simp_all
  show "parseInt (45 # ds) = IntVal (- int (digitsValue ds))"
    unfolding parseInt_def Let_def dw' t2 using assms(1) by (simp only: tw if_True if_False simp_thms)
qed

lemma parseInt_showNat: "parseInt (showNat m) = IntVal (int m)"
  using parseInt_digits(1)[of "showNat m"] showNat_digits[of m] by (simp add: digitsValue_showNat)

lemma parseInt_minus_showNat: "parseInt (45 # showNat m) = IntVal (- int m)"
  using parseInt_digits(2)[of "showNat m"] showNat_digits[of m] by (simp add: digitsValue_showNat)

lemma intOr0_small: "\<bar>n\<bar> < 10 ^ 21 \<Longrightarrow> intOr0 (IntVal n) = n"
proof -
  assume a: "\<bar>n\<bar> < 10 ^ 21"
  then have "nat \<bar>n\<bar> < 10 ^ 21" by (simp add: nat_less_iff)
  then have len: "length (showNat (nat \<bar>n\<bar>)) \<le> 21" by (simp add: length_showNat)
  show ?thesis
  proof (cases "n < 0")
    case True
    with parseInt_minus_showNat[of "nat \<bar>n\<bar>"] len show ?thesis
      by (simp add: intOr0.simps numberToString_def Let_def)
  next
    case False
    with parseInt_showNat[of "nat \<bar>n\<bar>"] len show ?thesis
      by (simp add: intOr0.simps numberToString_def Let_def)
  qed
qed

lemma intOr0_countOf: "plainDigits x \<Longrightarrow> intOr0 x = countOf x"
  by (cases x) (simp_all add: plainDigits_def countOf_def intOr0_small)

text \<open>From 1e21 on the string has an exponent, and \<open>parseInt\<close> reads its first digit.\<close>

lemma intOr0_2e21: "intOr0 (IntVal 2000000000000000000000) = 2"
  by (simp add: intOr0.simps numberToString_def stripTrailingZeros_def showNat.simps parseInt_def
      Let_def isWhiteSpace_def isDigit_def digitsValue_def)

lemma numberToString_examples: "numberToString 2000000000000000000000 = str ''2e+21''"
  "numberToString 15000000000000000000000 = str ''1.5e+22''"
  "numberToString 100000000000000000000 = str ''100000000000000000000''"
  "numberToString (-42) = str ''-42''"
  by (simp_all add: numberToString_def stripTrailingZeros_def showNat.simps str_def Let_def)

section \<open>Properties of retryOperation\<close>

text \<open>
  C8. With three attempts allowed, an operation that fails three times makes
  \<open>retryOperation\<close> throw after exactly three calls, and what it throws is the error
  of the third call; the waits between the calls are 2000 and 4000 ms. If the first,
  second or third call succeeds, its result is returned at once, after that many calls.
\<close>

theorem retryOperation_three_attempts:
  "(fn w0 = (Inl e1, w1) \<and> fn (wait 2000 w1) = (Inl e2, w2) \<and> fn (wait 4000 w2) = (Inl e3, w3)
      \<longrightarrow> retryOperation fn wait 3 w0 = (Inl (Some e3), 3, w3))
 \<and> (fn w0 = (Inr v, w1) \<longrightarrow> retryOperation fn wait 3 w0 = (Inr v, 1, w1))
 \<and> (fn w0 = (Inl e1, w1) \<and> fn (wait 2000 w1) = (Inr v, w2)
      \<longrightarrow> retryOperation fn wait 3 w0 = (Inr v, 2, w2))
 \<and> (fn w0 = (Inl e1, w1) \<and> fn (wait 2000 w1) = (Inl e2, w2) \<and> fn (wait 4000 w2) = (Inr v, w3)
      \<longrightarrow> retryOperation fn wait 3 w0 = (Inr v, 3, w3))"
  by (simp add: retryOperation_def retryDelay_def eval_nat_numeral)

text \<open>
  An operation on a counter that fails with the number of the call it is at, and one
  that succeeds from its third call on.
\<close>

theorem retryOperation_three_attempts_witness:
  "retryOperation (\<lambda>w::nat. (Inl w :: nat + nat, Suc w)) (\<lambda>d w. w) 3 0 = (Inl (Some 2), 3, 3)
 \<and> retryOperation (\<lambda>w::nat. (Inr (w + 7) :: nat + nat, Suc w)) (\<lambda>d w. w) 3 0 = (Inr 7, 1, 1)
 \<and> retryOperation (\<lambda>w::nat. (if w < 1 then Inl w else Inr (w + 7) :: nat + nat, Suc w)) (\<lambda>d w. w) 3 0
      = (Inr 8, 2, 2)
 \<and> retryOperation (\<lambda>w::nat. (if w < 2 then Inl w else Inr (w + 7) :: nat + nat, Suc w)) (\<lambda>d w. w) 3 0
      = (Inr 9, 3, 3)"
proof -
  let ?wait = "\<lambda>(d::nat) (w::nat). w"
  let ?f0 = "\<lambda>w::nat. (Inl w :: nat + nat, Suc w)"
  let ?f1 = "\<lambda>w::nat. (Inr (w + 7) :: nat + nat, Suc w)"
  let ?f2 = "\<lambda>w::nat. (if w < 1 then Inl w else Inr (w + 7) :: nat + nat, Suc w)"
  let ?f3 = "\<lambda>w::nat. (if w < 2 then Inl w else Inr (w + 7) :: nat + nat, Suc w)"
  have a: "retryOperation ?f0 ?wait 3 0 = (Inl (Some 2), 3, 3)"
    using retryOperation_three_attempts [of ?f0 0 0 1 ?wait 1 2 2 3 0] by simp
  have b: "retryOperation ?f1 ?wait 3 0 = (Inr 7, 1, 1)"
    using retryOperation_three_attempts [of ?f1 0 0 1 ?wait 0 0 0 0 7] by simp
  have c: "retryOperation ?f2 ?wait 3 0 = (Inr 8, 2, 2)"
    using retryOperation_three_attempts [of ?f2 0 0 1 ?wait 0 2 0 0 8] by simp
  have d: "retryOperation ?f3 ?wait 3 0 = (Inr 9, 3, 3)"
    using retryOperation_three_attempts [of ?f3 0 0 1 ?wait 1 2 0 3 9] by simp
  from a b c d show ?thesis by simp
qed

section \<open>Properties of the merge\<close>

text \<open>
  C1. In the merged record, rating and review count are the detail value when it is
  strictly positive and the candidate's otherwise; the category is the candidate's when
  non-empty and not "Unknown", else the detail category, "Unknown" when that is empty;
  the budget is the candidate's when non-empty, else the detail budget; the review
  snippet is the candidate's.
\<close>

theorem mergeResult_precedence:
  "rating (mergeResult target det)
     = (if 0 < detailRating det then detailRating det else rating target)
 \<and> reviews (mergeResult target det)
     = (if gt0 (detailReviews det) then detailReviews det else reviews target)
 \<and> category (mergeResult target det)
     = (if category target \<noteq> [] \<and> category target \<noteq> str ''Unknown'' then category target
        else if d_category det \<noteq> [] then d_category det else str ''Unknown'')
 \<and> budget (mergeResult target det)
     = (if budget target \<noteq> [] then budget target else d_budget det)
 \<and> review (mergeResult target det) = review target"
  by (simp add: mergeResult_def)

section \<open>Properties of the duplicate removal\<close>

lemma dedupLoop_keepFirst: "dedupLoop xs m u = u @ keepFirst (dom m) xs"
  by (induction xs arbitrary: m u) (auto simp: domIff)

lemma keepFirst_urls: "url ` set (keepFirst seen xs) = url ` set xs - seen"
  by (induction xs arbitrary: seen) auto

lemma keepFirst_distinct: "distinct (map url (keepFirst seen xs))"
proof (induction xs arbitrary: seen)
  case Nil
  then show ?case by simp
next
  case (Cons x xs)
  have "url x \<notin> url ` set (keepFirst (insert (url x) seen) xs)"
    by (simp add: keepFirst_urls)
  with Cons show ?case by auto
qed

lemma keepFirst_first:
  "r \<in> set (keepFirst seen xs) \<Longrightarrow> find (\<lambda>x. url x = url r) xs = Some r"
proof (induction xs arbitrary: seen)
  case Nil
  then show ?case by simp
next
  case (Cons x xs)
  show ?case
  proof (cases "url x \<in> seen")
    case True
    with Cons.prems have r: "r \<in> set (keepFirst seen xs)" by simp
    then have "url r \<in> url ` set xs - seen" using keepFirst_urls by blast
    with True have "url x \<noteq> url r" by auto
    with Cons.IH[OF r] show ?thesis by simp
  next
    case False
    show ?thesis
    proof (cases "r = x")
      case True
      then show ?thesis by simp
    next
      case neq: False
      with False Cons.prems have r: "r \<in> set (keepFirst (insert (url x) seen) xs)" by simp
      then have "url r \<in> url ` set xs - insert (url x) seen" using keepFirst_urls by blast
      then have "url x \<noteq> url r" by auto
      with Cons.IH[OF r] show ?thesis by simp
    qed
  qed
qed

text \<open>
  C4. The output of the duplicate removal has each url of the input exactly once, and
  the record kept for a url is the first record of the input with that url.
\<close>

theorem dedupe_first_occurrence:
  "distinct (map url (dedupe results))
 \<and> set (map url (dedupe results)) = set (map url results)
 \<and> (\<forall>r \<in> set (dedupe results). find (\<lambda>x. url x = url r) results = Some r)"
  using keepFirst_distinct [of "{}" results] keepFirst_urls [of "{}" results]
    keepFirst_first [of _ "{}" results]
  by (simp add: dedupe_def dedupLoop_keepFirst)

text \<open>Three extracted records, the second repeating the url of the first.\<close>

theorem dedupe_first_occurrence_witness:
  "dedupe [listed (str ''A'') (str ''u1'') (45 / 10) (IntVal 10),
           listed (str ''B'') (str ''u1'') 0 NaN,
           listed (str ''C'') (str ''u2'') 4 (IntVal 3)]
     = [listed (str ''A'') (str ''u1'') (45 / 10) (IntVal 10),
        listed (str ''C'') (str ''u2'') 4 (IntVal 3)]
 \<and> listed (str ''A'') (str ''u1'') (45 / 10) (IntVal 10) \<in> set (dedupe [listed (str ''A'') (str ''u1'') (45 / 10) (IntVal 10),
           listed (str ''B'') (str ''u1'') 0 NaN,
           listed (str ''C'') (str ''u2'') 4 (IntVal 3)])
 \<and> find (\<lambda>x. url x = str ''u1'')
      [listed (str ''A'') (str ''u1'') (45 / 10) (IntVal 10),
       listed (str ''B'') (str ''u1'') 0 NaN,
       listed (str ''C'') (str ''u2'') 4 (IntVal 3)]
     = Some (listed (str ''A'') (str ''u1'') (45 / 10) (IntVal 10))"
proof -
  let ?xs = "[listed (str ''A'') (str ''u1'') (45 / 10) (IntVal 10),
           listed (str ''B'') (str ''u1'') 0 NaN,
           listed (str ''C'') (str ''u2'') 4 (IntVal 3)]"
  have d: "dedupe ?xs = [listed (str ''A'') (str ''u1'') (45 / 10) (IntVal 10),
        listed (str ''C'') (str ''u2'') 4 (IntVal 3)]"
    by (simp add: dedupe_def listed_def str_def)
  have u: "url (listed (str ''A'') (str ''u1'') (45 / 10) (IntVal 10)) = str ''u1''"
    by (simp add: listed_def)
  from dedupe_first_occurrence [of ?xs] d u show ?thesis
    by (simp del: find.simps)
qed

section \<open>Properties of the ranking\<close>

lemma mset_insertSorted: "mset (insertSorted cmp x ys) = add_mset x (mset ys)"
  by (induction ys) auto

lemma mset_sortWith: "mset (sortWith cmp xs) = mset xs"
  by (induction xs) (auto simp: sortWith_def mset_insertSorted)

lemma set_insertSorted: "set (insertSorted cmp x ys) = insert x (set ys)"
  by (induction ys) auto

lemma compare_le: "compareResults a b \<le> 0 \<longleftrightarrow> rankedBefore a b"
  by (auto simp: compareResults_def rankedBefore_def Let_def)

lemma compare_eq0: "compareResults a b = 0 \<longleftrightarrow> rankKey a = rankKey b"
  by (auto simp: compareResults_def rankKey_def Let_def)

lemma rankedBefore_trans: "rankedBefore a b \<Longrightarrow> rankedBefore b c \<Longrightarrow> rankedBefore a c"
  by (auto simp: rankedBefore_def)

lemma rankedBefore_total: "\<not> rankedBefore a b \<Longrightarrow> rankedBefore b a"
  by (auto simp: rankedBefore_def)

lemma sorted_insertSorted:
  "sorted_wrt rankedBefore ys \<Longrightarrow> sorted_wrt rankedBefore (insertSorted compareResults x ys)"
proof (induction ys)
  case Nil
  then show ?case by simp
next
  case (Cons y ys)
  show ?case
  proof (cases "compareResults x y \<le> 0")
    case True
    then have xy: "rankedBefore x y" by (simp add: compare_le)
    with Cons.prems have "\<forall>z\<in>set ys. rankedBefore x z"
      by (auto intro: rankedBefore_trans)
    with True xy Cons.prems show ?thesis by simp
  next
    case False
    then have "rankedBefore y x" by (simp add: compare_le rankedBefore_total)
    with False Cons show ?thesis by (auto simp: set_insertSorted)
  qed
qed

lemma sorted_sortResults: "sorted_wrt rankedBefore (sortResults xs)"
  by (induction xs) (auto simp: sortResults_def sortWith_def sorted_insertSorted)

lemma filter_insertSorted:
  "filter (\<lambda>y. rankKey y = k) (insertSorted compareResults x ys) =
   (if rankKey x = k then x # filter (\<lambda>y. rankKey y = k) ys else filter (\<lambda>y. rankKey y = k) ys)"
proof (induction ys)
  case Nil
  then show ?case by simp
next
  case (Cons y ys)
  show ?case
  proof (cases "compareResults x y \<le> 0")
    case True
    then show ?thesis by simp
  next
    case False
    then have "rankKey x \<noteq> rankKey y" using compare_eq0[of x y] by auto
    with False Cons show ?thesis by auto
  qed
qed

lemma stable_sortResults:
  "filter (\<lambda>y. rankKey y = k) (sortResults xs) = filter (\<lambda>y. rankKey y = k) xs"
  by (induction xs) (auto simp: sortResults_def sortWith_def filter_insertSorted)

text \<open>
  The ranked list is a permutation of the matched list, ordered by the keys that the
  comparator reads, and records of equal keys keep the order they had. Where every
  review count is below 1e21 the order is by rating descending and then by review count
  descending. Three records with rating and review count 4.2/10, 4.8/2 and 4.2/50 come
  out as 4.8/2, 4.2/50, 4.2/10.
\<close>

lemma sortResults_permutation_stable:
  "mset (sortResults xs) = mset xs
 \<and> sorted_wrt rankedBefore (sortResults xs)
 \<and> (\<forall>k. filter (\<lambda>y. rankKey y = k) (sortResults xs) = filter (\<lambda>y. rankKey y = k) xs)"
proof -
  have "mset (sortResults xs) = mset xs"
    by (simp add: sortResults_def mset_sortWith)
  then show ?thesis
    using sorted_sortResults stable_sortResults by blast
qed

lemma sortResults_plainDigits:
  assumes "\<forall>x \<in> set xs. plainDigits (reviews x)"
  shows "sorted_wrt (\<lambda>a b. rating a > rating b
            \<or> (rating a = rating b \<and> countOf (reviews a) \<ge> countOf (reviews b)))
          (sortResults xs)"
proof -
  have "set (sortResults xs) = set xs"
    using sortResults_permutation_stable [of xs] by (metis set_mset_mset)
  with assms have small: "\<forall>x \<in> set (sortResults xs). intOr0 (reviews x) = countOf (reviews x)"
    by (simp add: intOr0_countOf)
  show ?thesis
    by (rule sorted_wrt_mono_rel [OF _ sorted_sortResults [of xs]])
      (use small in \<open>auto simp: rankedBefore_def\<close>)
qed

lemma sortResults_example:
  "sortResults [a\<lparr>rating := 42 / 10, reviews := IntVal 10\<rparr>,
                b\<lparr>rating := 48 / 10, reviews := IntVal 2\<rparr>,
                c\<lparr>rating := 42 / 10, reviews := IntVal 50\<rparr>]
     = [b\<lparr>rating := 48 / 10, reviews := IntVal 2\<rparr>,
        c\<lparr>rating := 42 / 10, reviews := IntVal 50\<rparr>,
        a\<lparr>rating := 42 / 10, reviews := IntVal 10\<rparr>]"
  by (simp add: sortResults_def sortWith_def compareResults_def intOr0_small)

text \<open>
  C9 at two matched records of rating 4.2 that completed in the order 50 reviews,
  2e21 reviews: the comparator reads the second count through its string \<open>2e+21\<close> as
  2, so the record of 50 reviews stays first and the ranked list is not in descending
  order of review count.
\<close>

theorem sortResults_count_through_string:
  "sortResults [plainResult\<lparr>rating := 42 / 10, reviews := IntVal 50\<rparr>,
                plainResult\<lparr>rating := 42 / 10, reviews := IntVal 2000000000000000000000\<rparr>]
     = [plainResult\<lparr>rating := 42 / 10, reviews := IntVal 50\<rparr>,
        plainResult\<lparr>rating := 42 / 10, reviews := IntVal 2000000000000000000000\<rparr>]
 \<and> numberToString 2000000000000000000000 = str ''2e+21''
 \<and> intOr0 (IntVal 2000000000000000000000) = 2
 \<and> countOf (IntVal 50) < countOf (IntVal 2000000000000000000000)"
  by (simp add: sortResults_def sortWith_def compareResults_def intOr0_small intOr0_2e21
      numberToString_examples countOf_def)

section \<open>Properties of the time-of-day check\<close>

lemmas time_eval = checkOpenAtTime_def parseTime_def parseBusinessTime_def hourMinute_def
  hourMinuteAt_def minutesOf_def digitsValue_def isDigit_def split_def trim_def isWhiteSpace_def
  segmentOpen_def indexOf_def dayShort_def replace_def isOpenAt_def str_def passedOutcome_def
  failedOutcome_def Let_def

text \<open>
  C5. For the business hours "Mon: 18:00 to 5:00" (written with the day sign 0x6708 and
  the hour and minute signs) and the configured day Monday, the time check passes at
  23:00 and fails at 10:00. In general a segment of the configured days whose close is
  not after its open counts as open exactly when the target is at or after the open or
  before the close, in minutes since midnight.
\<close>

theorem checkOpenAtTime_midnight_wrap:
  "passed (checkOpenAtTime
      [26376, 58, 32, 49, 56, 26178, 48, 48, 20998, 65374, 53, 26178, 48, 48, 20998]
      (str ''23:00'') [[26376, 26332, 26085]])
 \<and> \<not> passed (checkOpenAtTime
      [26376, 58, 32, 49, 56, 26178, 48, 48, 20998, 65374, 53, 26178, 48, 48, 20998]
      (str ''10:00'') [[26376, 26332, 26085]])
 \<and> (cls \<le> opn \<and> indexOf segment [58] = Some i
      \<and> (targetDays = [] \<or> list_ex (\<lambda>d. includesStr (take i segment) d) (map dayShort targetDays))
      \<and> parseBusinessTime (drop (i + 1) segment) = Some (opn, cls)
      \<longrightarrow> segmentOpen targetDays target segment = (target \<ge> opn \<or> target < cls))"
proof -
  have a: "passed (checkOpenAtTime
      [26376, 58, 32, 49, 56, 26178, 48, 48, 20998, 65374, 53, 26178, 48, 48, 20998]
      (str ''23:00'') [[26376, 26332, 26085]])"
    by (simp add: time_eval)
  have b: "\<not> passed (checkOpenAtTime
      [26376, 58, 32, 49, 56, 26178, 48, 48, 20998, 65374, 53, 26178, 48, 48, 20998]
      (str ''10:00'') [[26376, 26332, 26085]])"
    by (simp add: time_eval)
  have c: "cls \<le> opn \<and> indexOf segment [58] = Some i
      \<and> (targetDays = [] \<or> list_ex (\<lambda>d. includesStr (take i segment) d) (map dayShort targetDays))
      \<and> parseBusinessTime (drop (i + 1) segment) = Some (opn, cls)
      \<longrightarrow> segmentOpen targetDays target segment = (target \<ge> opn \<or> target < cls)"
    by (auto simp: segmentOpen_def isOpenAt_def Let_def)
  from a b c show ?thesis by blast
qed

text \<open>The segment of the example: open 1080, close 300; 23:00 is 1380 and 10:00 is 600.\<close>

theorem checkOpenAtTime_midnight_wrap_witness:
  "(300::nat) \<le> 1080
 \<and> indexOf [26376, 58, 32, 49, 56, 26178, 48, 48, 20998, 65374, 53, 26178, 48, 48, 20998] [58] = Some 1
 \<and> list_ex (\<lambda>d. includesStr (take 1 [26376, 58, 32, 49, 56, 26178, 48, 48, 20998, 65374, 53, 26178, 48, 48, 20998]) d)
      (map dayShort [[26376, 26332, 26085]])
 \<and> parseBusinessTime (drop (1 + 1) [26376, 58, 32, 49, 56, 26178, 48, 48, 20998, 65374, 53, 26178, 48, 48, 20998])
      = Some (1080, 300)
 \<and> segmentOpen [[26376, 26332, 26085]] 1380
      [26376, 58, 32, 49, 56, 26178, 48, 48, 20998, 65374, 53, 26178, 48, 48, 20998]
 \<and> \<not> segmentOpen [[26376, 26332, 26085]] 600
      [26376, 58, 32, 49, 56, 26178, 48, 48, 20998, 65374, 53, 26178, 48, 48, 20998]"
proof -
  let ?seg = "[26376, 58, 32, 49, 56, 26178, 48, 48, 20998, 65374, 53, 26178, 48, 48, 20998] :: jsstring"
  have h1: "indexOf ?seg [58] = Some 1" by (simp add: indexOf_def)
  have h2: "list_ex (\<lambda>d. includesStr (take 1 ?seg) d) (map dayShort [[26376, 26332, 26085]])"
    by (simp add: dayShort_def replace_def indexOf_def)
  have h3: "parseBusinessTime (drop (1 + 1) ?seg) = Some (1080, 300)"
    by (simp add: time_eval)
  from checkOpenAtTime_midnight_wrap [of 300 1080 ?seg 1 "[[26376, 26332, 26085]]" 1380] h1 h2 h3
  have open23: "segmentOpen [[26376, 26332, 26085]] 1380 ?seg" by simp
  from checkOpenAtTime_midnight_wrap [of 300 1080 ?seg 1 "[[26376, 26332, 26085]]" 600] h1 h2 h3
  have closed10: "\<not> segmentOpen [[26376, 26332, 26085]] 600 ?seg" by simp
  from h1 h2 h3 open23 closed10 show ?thesis by simp
qed

section \<open>Properties of the post-filter\<close>

lemma daysLoop_iff:
  "daysLoop hoursText lowerHours ds
     = (\<exists>day \<in> set ds. includesStr hoursText (dayShort day) \<and> \<not> closedMarker lowerHours)"
  by (induction ds) auto

lemma checkDays_rejects:
  "checkDays item flt = Some r \<Longrightarrow> \<not> passed (checkFilters item minReviews flt)"
  by (simp add: checkFilters_def failedOutcome_def split: option.splits)

lemmas filter_eval = checkFilters_def checkReviews_def checkAddress_def checkCategory_def
  checkBudget_def checkDays_def checkHours_def plainFilters_def plainResult_def
  passedOutcome_def failedOutcome_def

text \<open>
  With Monday configured and empty business hours, in which no day token appears, the
  record passes: the day check is made only when there is a business-hours text.
\<close>

theorem checkFilters_days_counterexample:
  "days (plainFilters\<lparr>days := [[26376, 26332, 26085]]\<rparr>) \<noteq> []
 \<and> \<not> includesStr (businessHours plainResult) (dayShort [26376, 26332, 26085])
 \<and> passed (checkFilters plainResult 0 (plainFilters\<lparr>days := [[26376, 26332, 26085]]\<rparr>))"
  by (simp add: filter_eval dayShort_def replace_def indexOf_def)

text \<open>
  C6, amended. When days are configured and the business-hours text is not empty, the
  post-filter rejects the record if no configured day is found open, a day being found
  open when its token occurs in the text and the text has no closed marker; so a record
  with a non-empty text in which no configured day token occurs is rejected.
\<close>

theorem checkFilters_days:
  "(days flt \<noteq> [] \<and> businessHours item \<noteq> []
    \<and> \<not> (\<exists>day \<in> set (days flt).
          includesStr (businessHours item) (dayShort day)
          \<and> \<not> closedMarker (toLowerCase (businessHours item)))
    \<longrightarrow> \<not> passed (checkFilters item minReviews flt))
 \<and> (days flt \<noteq> [] \<and> businessHours item \<noteq> []
    \<and> (\<forall>day \<in> set (days flt). \<not> includesStr (businessHours item) (dayShort day))
    \<longrightarrow> \<not> passed (checkFilters item minReviews flt))
 \<and> (checkDays item flt = None) =
     (days flt = [] \<or> businessHours item = []
      \<or> (\<exists>day \<in> set (days flt).
            includesStr (businessHours item) (dayShort day)
            \<and> \<not> closedMarker (toLowerCase (businessHours item))))"
proof -
  have none: "(checkDays item flt = None) =
     (days flt = [] \<or> businessHours item = []
      \<or> (\<exists>day \<in> set (days flt).
            includesStr (businessHours item) (dayShort day)
            \<and> \<not> closedMarker (toLowerCase (businessHours item))))"
    by (simp add: checkDays_def Let_def daysLoop_iff)
  have rej: "\<not> passed (checkFilters item minReviews flt)"
    if "days flt \<noteq> []" "businessHours item \<noteq> []"
      "\<not> (\<exists>day \<in> set (days flt).
          includesStr (businessHours item) (dayShort day)
          \<and> \<not> closedMarker (toLowerCase (businessHours item)))"
  proof -
    from that none have "checkDays item flt \<noteq> None" by simp
    then obtain r where "checkDays item flt = Some r" by auto
    then show ?thesis by (rule checkDays_rejects)
  qed
  from none rej show ?thesis by blast
qed

text \<open>Business hours "Tue: 9:00 to 21:00" against the configured day Monday.\<close>

theorem checkFilters_days_witness:
  "days (plainFilters\<lparr>days := [[26376, 26332, 26085]]\<rparr>) \<noteq> []
 \<and> businessHours (plainResult\<lparr>businessHours := [28779, 58, 32, 57, 26178, 48, 48, 20998, 65374, 50, 49, 26178, 48, 48, 20998]\<rparr>) \<noteq> []
 \<and> \<not> includesStr [28779, 58, 32, 57, 26178, 48, 48, 20998, 65374, 50, 49, 26178, 48, 48, 20998] (dayShort [26376, 26332, 26085])
 \<and> \<not> passed (checkFilters
        (plainResult\<lparr>businessHours := [28779, 58, 32, 57, 26178, 48, 48, 20998, 65374, 50, 49, 26178, 48, 48, 20998]\<rparr>)
        0 (plainFilters\<lparr>days := [[26376, 26332, 26085]]\<rparr>))"
proof -
  let ?h = "[28779, 58, 32, 57, 26178, 48, 48, 20998, 65374, 50, 49, 26178, 48, 48, 20998] :: jsstring"
  have t: "\<not> includesStr ?h (dayShort [26376, 26332, 26085])"
    by (simp add: dayShort_def replace_def indexOf_def)
  from checkFilters_days [of "plainFilters\<lparr>days := [[26376, 26332, 26085]]\<rparr>"
      "plainResult\<lparr>businessHours := ?h\<rparr>" 0] t
  show ?thesis by (simp add: plainFilters_def)
qed

lemma failedOutcome_reason: "reason (failedOutcome r) = r" "passed (failedOutcome r) = False"
  by (simp_all add: failedOutcome_def)

lemma checkReviews_nonempty: "checkReviews item m = Some r \<Longrightarrow> r \<noteq> []"
  by (auto simp: checkReviews_def Let_def split: if_splits)

lemma checkAddress_nonempty: "checkAddress item flt = Some r \<Longrightarrow> r \<noteq> []"
  by (auto simp: checkAddress_def Let_def split: if_splits)

lemma checkCategory_nonempty: "checkCategory item flt = Some r \<Longrightarrow> r \<noteq> []"
  by (auto simp: checkCategory_def Let_def split: if_splits)

lemma checkBudget_nonempty: "checkBudget item flt = Some r \<Longrightarrow> r \<noteq> []"
  by (auto simp: checkBudget_def belowBudgetMin_def aboveBudgetMax_def Let_def
      split: if_splits option.splits)

lemma checkDays_nonempty: "checkDays item flt = Some r \<Longrightarrow> r \<noteq> []"
  by (auto simp: checkDays_def Let_def split: if_splits)

lemma checkOpenAtTime_reason:
  "\<not> passed (checkOpenAtTime h t ds) \<Longrightarrow> reason (checkOpenAtTime h t ds) \<noteq> []"
  by (auto simp: checkOpenAtTime_def passedOutcome_def failedOutcome_def notOpenAtText_def Let_def
      split: option.splits if_splits)

lemma checkHours_nonempty: "checkHours item flt = Some r \<Longrightarrow> r \<noteq> []"
  by (auto simp: checkHours_def Let_def checkOpenAtTime_reason split: if_splits)

lemma postFilter_reason_nonempty:
  "\<not> passed (checkFilters item minReviews flt) \<Longrightarrow> reason (checkFilters item minReviews flt) \<noteq> []"
  by (auto simp: checkFilters_def failedOutcome_reason passedOutcome_def
      checkReviews_nonempty checkAddress_nonempty checkCategory_nonempty checkBudget_nonempty
      checkDays_nonempty checkHours_nonempty split: option.splits)

text \<open>
  The readings that throw without their test: a group of a failed match, an element
  behind the end, \<open>toLocaleString\<close> of \<open>null\<close>.
\<close>

lemma unguarded_readings_throw:
  "deref None = Inl TypeError"
  "deref (elementAt [m0] 1) = Inl TypeError"
  "toLocaleStringOf None = Inl TypeError"
  by (simp_all add: deref_def elementAt_def toLocaleStringOf_def andThen_def)

text \<open>
  With the tests of the source in place no reading throws: each function with its
  exceptions returns what the function without them computes.
\<close>

lemma parseTimeE_parseTime: "parseTimeE s = Inr (parseTime s)"
  by (auto simp: parseTimeE_def parseTime_def deref_def andThen_def Let_def split: option.splits)

lemma parseBusinessTimeE_parseBusinessTime: "parseBusinessTimeE s = Inr (parseBusinessTime s)"
proof (cases "matchAll (hourMinute [26178] [20998]) 0 s")
  case Nil
  then show ?thesis by (simp add: parseBusinessTimeE_def parseBusinessTime_def)
next
  case (Cons m0 ms)
  show ?thesis
  proof (cases ms)
    case Nil
    with Cons show ?thesis by (simp add: parseBusinessTimeE_def parseBusinessTime_def)
  next
    case (Cons m1 rest)
    with \<open>matchAll (hourMinute [26178] [20998]) 0 s = m0 # ms\<close> show ?thesis
      by (auto simp: parseBusinessTimeE_def parseBusinessTime_def elementAt_def deref_def
          andThen_def Let_def split: option.splits)
  qed
qed

lemma segmentOpenE_segmentOpen: "segmentOpenE ds t seg = Inr (segmentOpen ds t seg)"
  by (auto simp: segmentOpenE_def segmentOpen_def parseBusinessTimeE_parseBusinessTime
      deref_def andThen_def Let_def split: option.splits)

lemma segmentsLoopE_segmentsLoop: "segmentsLoopE ds t segs = Inr (segmentsLoop ds t segs)"
  by (induction segs) (simp_all add: segmentOpenE_segmentOpen)

lemma checkOpenAtTimeE_checkOpenAtTime:
  "checkOpenAtTimeE h t ds = Inr (checkOpenAtTime h t ds)"
  by (simp add: checkOpenAtTimeE_def checkOpenAtTime_def parseTimeE_parseTime
      segmentsLoopE_segmentsLoop andThen_def Let_def split: option.splits)

lemma checkBudgetE_checkBudget: "checkBudgetE item flt = Inr (checkBudget item flt)"
  by (auto simp: checkBudgetE_def checkBudget_def belowBudgetMin_def aboveBudgetMax_def
      lessThanBound_def greaterThanBound_def toLocaleStringOf_def deref_def andThen_def Let_def
      split: option.splits)

lemma checkHoursE_checkHours: "checkHoursE item flt = Inr (checkHours item flt)"
  by (simp add: checkHoursE_def checkHours_def checkOpenAtTimeE_checkOpenAtTime andThen_def Let_def)

lemma checkFiltersE_checkFilters:
  "checkFiltersE item minReviews flt = Inr (checkFilters item minReviews flt)"
  by (simp add: checkFiltersE_def checkFilters_def checkBudgetE_checkBudget checkHoursE_checkHours
      andThen_def split: option.splits)

text \<open>
  C7. On every record, review minimum and configuration \<open>checkFilters\<close> returns an
  outcome and throws nothing, and whenever the outcome is not passed its reason is not
  empty.
\<close>

theorem checkFilters_reason:
  "\<exists>outcome. checkFiltersE item minReviews flt = Inr outcome
     \<and> (\<not> passed outcome \<longrightarrow> reason outcome \<noteq> [])"
  using postFilter_reason_nonempty [of item minReviews flt]
  by (simp add: checkFiltersE_checkFilters)

text \<open>A record with 10 reviews against a minimum of 50.\<close>

theorem checkFilters_reason_witness:
  "checkFiltersE plainResult 50 plainFilters
     = Inr (failedOutcome ([12524, 12499, 12517, 12540, 25968, 19981, 36275, 32, 40] @ str ''10''
       @ [20214, 32, 60, 32] @ str ''50'' @ [20214, 41]))
 \<and> \<not> passed (failedOutcome ([12524, 12499, 12517, 12540, 25968, 19981, 36275, 32, 40] @ str ''10''
       @ [20214, 32, 60, 32] @ str ''50'' @ [20214, 41]))
 \<and> [12524, 12499, 12517, 12540, 25968, 19981, 36275, 32, 40] @ str ''10''
       @ [20214, 32, 60, 32] @ str ''50'' @ [20214, 41] \<noteq> []"
proof -
  have f: "checkFiltersE plainResult 50 plainFilters
     = Inr (failedOutcome ([12524, 12499, 12517, 12540, 25968, 19981, 36275, 32, 40] @ str ''10''
       @ [20214, 32, 60, 32] @ str ''50'' @ [20214, 41]))"
    by (simp add: checkFiltersE_def checkReviews_def plainResult_def intOr0_small
        numberToString_def showNat.simps str_def Let_def)
  from checkFilters_reason [of plainResult 50 plainFilters] f show ?thesis
    by (simp add: failedOutcome_def)
qed

section \<open>Properties of the pre-filter\<close>

text \<open>
  A candidate whose rating is unknown (0) is counted out on the rating criterion when
  the minimum is 4.
\<close>

theorem preFilter_rating_counterexample:
  "rating (listed (str ''A'') (str ''u1'') 0 NaN) = 0 \<and> (0::rat) < 4
 \<and> preFilter (listed (str ''A'') (str ''u1'') 0 NaN) 4 0 plainFilters = OutRating"
  by (simp add: preFilter_def listed_def)

text \<open>
  C2, amended. With a rating minimum above 0, the pre-filter rejects on the rating
  criterion exactly the candidates whose list-stage rating is below the minimum, and so
  every candidate whose rating is unknown (0); a review count below 1e21 is rejected
  on the review count only when it is known (above 0) and below a minimum above 0, and
  a count that is \<open>NaN\<close> never is.
\<close>

theorem preFilter_rating_reviews:
  "(0 < minRating \<longrightarrow>
      (preFilter c minRating minReviews flt = OutRating) = (rating c < minRating))
 \<and> (0 < minRating \<and> rating c = 0 \<longrightarrow> preFilter c minRating minReviews flt = OutRating)
 \<and> (preFilter c minRating minReviews flt = OutReviews \<and> reviews c = IntVal n \<and> \<bar>n\<bar> < 10 ^ 21
      \<longrightarrow> 0 < minReviews \<and> 0 < n \<and> n < minReviews)
 \<and> (reviews c = NaN \<longrightarrow> preFilter c minRating minReviews flt \<noteq> OutReviews)"
  by (auto simp: preFilter_def Let_def intOr0_small split: if_splits)

text \<open>
  Minimum rating 4: unknown and 3.8 are rejected on the rating; with a review minimum of
  10, a count of 3 is rejected on the reviews and an unknown count goes on.
\<close>

theorem preFilter_rating_reviews_witness:
  "(0::rat) < 4
 \<and> preFilter (listed (str ''A'') (str ''u1'') 0 NaN) 4 0 plainFilters = OutRating
 \<and> preFilter (listed (str ''B'') (str ''u2'') (38 / 10) (IntVal 3)) 4 0 plainFilters = OutRating
 \<and> preFilter (listed (str ''C'') (str ''u3'') (45 / 10) (IntVal 3)) 4 10 plainFilters = OutReviews
 \<and> reviews (listed (str ''C'') (str ''u3'') (45 / 10) (IntVal 3)) = IntVal 3
 \<and> \<bar>3::int\<bar> < 10 ^ 21 \<and> (0::int) < 3 \<and> (3::int) < 10
 \<and> reviews (listed (str ''D'') (str ''u4'') (45 / 10) NaN) = NaN
 \<and> preFilter (listed (str ''D'') (str ''u4'') (45 / 10) NaN) 4 10 plainFilters \<noteq> OutReviews"
proof -
  have a: "preFilter (listed (str ''A'') (str ''u1'') 0 NaN) 4 0 plainFilters = OutRating"
    using preFilter_rating_reviews [of 4 "listed (str ''A'') (str ''u1'') 0 NaN" 0 plainFilters]
    by (simp add: listed_def)
  have b: "preFilter (listed (str ''B'') (str ''u2'') (38 / 10) (IntVal 3)) 4 0 plainFilters = OutRating"
    using preFilter_rating_reviews [of 4 "listed (str ''B'') (str ''u2'') (38 / 10) (IntVal 3)" 0 plainFilters]
    by (simp add: listed_def)
  have c: "preFilter (listed (str ''C'') (str ''u3'') (45 / 10) (IntVal 3)) 4 10 plainFilters = OutReviews"
    by (simp add: preFilter_def listed_def intOr0_small)
  have c': "reviews (listed (str ''C'') (str ''u3'') (45 / 10) (IntVal 3)) = IntVal 3"
    by (simp add: listed_def)
  have c'': "(0::int) < 3 \<and> (3::int) < 10"
    using preFilter_rating_reviews
      [of 4 "listed (str ''C'') (str ''u3'') (45 / 10) (IntVal 3)" 10 plainFilters 3] c c'
    by simp
  have d: "reviews (listed (str ''D'') (str ''u4'') (45 / 10) NaN) = NaN"
    by (simp add: listed_def)
  have d': "preFilter (listed (str ''D'') (str ''u4'') (45 / 10) NaN) 4 10 plainFilters \<noteq> OutReviews"
    using preFilter_rating_reviews
      [of 4 "listed (str ''D'') (str ''u4'') (45 / 10) NaN" 10 plainFilters] d
    by simp
  from a b c c' c'' d d' show ?thesis by simp
qed

text \<open>
  A count of 1e21 is read through its string \<open>1e+21\<close> as 1 and so counted out on the
  reviews against a minimum of 5.
\<close>

lemma preFilter_count_through_string:
  "preFilter (listed (str ''E'') (str ''u5'') (45 / 10) (IntVal 1000000000000000000000)) 0 5
     plainFilters = OutReviews"
  by (simp add: preFilter_def listed_def intOr0.simps numberToString_def stripTrailingZeros_def
      showNat.simps parseInt_def Let_def isWhiteSpace_def isDigit_def digitsValue_def)

section \<open>Properties of the ratings read\<close>

text \<open>At the list stage a rating is 0 or between 1 and 5.\<close>

lemma ratingLoop_bounds: "0 \<le> ratingLoop ms \<and> ratingLoop ms \<le> 5"
  by (induction ms) (auto simp: Let_def)

lemma extractRating_bounds: "0 \<le> extractRating text \<and> extractRating text \<le> 5"
  by (simp add: extractRating_def ratingLoop_bounds)

lemma extractRating_known: "extractRating text = 0 \<or> 1 \<le> extractRating text"
proof -
  have "ratingLoop ms = 0 \<or> 1 \<le> ratingLoop ms" for ms
    by (induction ms) (auto simp: Let_def)
  then show ?thesis by (simp add: extractRating_def)
qed

text \<open>At the detail stage a rating is between 0 and 9.9; a merge keeps ratings non-negative.\<close>

lemma firstMatch_decimalAt:
  "firstMatch (decimalAt lo hi) s = Some (a, c, n)
   \<Longrightarrow> \<exists>x y. a = [x] \<and> c = [y] \<and> lo \<le> x \<and> x \<le> hi \<and> isDigit y"
proof (induction s)
  case Nil
  then show ?case by simp
next
  case (Cons x xs)
  show ?case
  proof (cases "decimalAt lo hi (x # xs)")
    case None
    with Cons show ?thesis by simp
  next
    case (Some r)
    then obtain p y rest where xs: "xs = p # y # rest"
      by (cases xs; cases "tl xs") auto
    with Some Cons.prems show ?thesis
      by (auto split: if_splits)
  qed
qed

lemma detailRatingOf_range: "0 \<le> detailRatingOf label \<and> detailRatingOf label \<le> 99 / 10"
proof (cases "firstMatch (decimalAt 48 57) label")
  case None
  then show ?thesis by (simp add: detailRatingOf_def)
next
  case (Some r)
  obtain a c n where r: "r = (a, c, n)" by (cases r)
  with Some obtain x y where xy: "a = [x]" "c = [y]" "48 \<le> x" "x \<le> 57" "isDigit y"
    using firstMatch_decimalAt by blast
  then have "x - 48 \<le> 9" "y - 48 \<le> 9" by (auto simp: isDigit_def)
  then have "(of_nat (x - 48) :: rat) \<le> 9" "(of_nat (y - 48) :: rat) \<le> 9"
    by (metis of_nat_le_iff of_nat_numeral)+
  with Some r xy show ?thesis
    by (simp add: detailRatingOf_def parseFloatMatch_def digitsValue_def)
qed

lemma mergeResult_rating_nonneg: "0 \<le> rating target \<Longrightarrow> 0 \<le> rating (mergeResult target det)"
  by (simp add: mergeResult_def)

text \<open>
  C3 at a detail page whose rating element is labelled "9.9" followed by the star word
  0x3064 0x661F: the detail rating is 9.9, above 5, and so is the rating of the merged
  record, while the list stage reads the same text as unknown. The range check of the
  list stage is missing at the detail stage.
\<close>

theorem detailRating_out_of_range:
  "detailRatingOf [57, 46, 57, 32, 12388, 26143] = 99 / 10
 \<and> \<not> detailRatingOf [57, 46, 57, 32, 12388, 26143] \<le> 5
 \<and> rating (mergeResult (listed (str ''A'') (str ''u1'') (45 / 10) (IntVal 10))
      (plainDetails\<lparr>detailRating := detailRatingOf [57, 46, 57, 32, 12388, 26143]\<rparr>)) = 99 / 10
 \<and> extractRating ([57, 46, 57, 32, 12388, 26143]) = 0"
proof -
  have a: "detailRatingOf [57, 46, 57, 32, 12388, 26143] = 99 / 10"
    by (simp add: detailRatingOf_def parseFloatMatch_def digitsValue_def isDigit_def)
  have b: "extractRating ([57, 46, 57, 32, 12388, 26143]) = 0"
    by (simp add: extractRating_def)
  from a b show ?thesis by (simp add: mergeResult_def plainDetails_def)
qed

section \<open>Properties of the pipeline\<close>

lemma preFilter_maxItems:
  "preFilter c minRating minReviews (flt\<lparr>maxItems := n\<rparr>) = preFilter c minRating minReviews flt"
  by (simp add: preFilter_def preCategoryRejects_def preBudgetRejects_def
      cong: if_cong option.case_cong)

lemma checks_maxItems:
  "checkAddress item (flt\<lparr>maxItems := n\<rparr>) = checkAddress item flt"
  "checkCategory item (flt\<lparr>maxItems := n\<rparr>) = checkCategory item flt"
  "checkBudget item (flt\<lparr>maxItems := n\<rparr>) = checkBudget item flt"
  "checkDays item (flt\<lparr>maxItems := n\<rparr>) = checkDays item flt"
  "checkHours item (flt\<lparr>maxItems := n\<rparr>) = checkHours item flt"
  by (simp_all add: checkAddress_def checkCategory_def checkBudget_def checkDays_def
      checkHours_def cong: if_cong option.case_cong)

lemma checkFilters_maxItems:
  "checkFilters item minReviews (flt\<lparr>maxItems := n\<rparr>) = checkFilters item minReviews flt"
  by (simp add: checkFilters_def checks_maxItems cong: option.case_cong)

lemma processItem_maxItems:
  "processItem g minReviews (flt\<lparr>maxItems := n\<rparr>) = processItem g minReviews flt"
  by (rule ext) (simp add: processItem_def checkFilters_maxItems cong: sum.case_cong)

lemma processChunk_maxItems:
  "processChunk g minReviews (flt\<lparr>maxItems := n\<rparr>) = processChunk g minReviews flt"
  by (rule ext) (simp add: processChunk_def processItem_maxItems)

text \<open>
  C10. Two runs on the same feed, detail pages and thresholds whose configurations differ
  only in \<open>maxItems\<close> give the same result: no step from the pre-filter to the ranking
  reads the field (scrolling and extraction take the feed alone). So the result is not
  cut to \<open>maxItems\<close>: with \<open>maxItems\<close> 1 and two matching candidates, both are returned.
\<close>

theorem search_ignores_maxItems:
  "search stage getDetailsWithPage minRating minReviews (flt\<lparr>maxItems := n\<rparr>)
     = search stage getDetailsWithPage minRating minReviews flt
 \<and> search (Feed [firstListed, secondListed]) (\<lambda>u. Inr plainDetails) 0 0
      (plainFilters\<lparr>maxItems := 1\<rparr>)
     = Inr [mergeResult secondListed plainDetails, mergeResult firstListed plainDetails]"
proof -
  have a: "search stage getDetailsWithPage minRating minReviews (flt\<lparr>maxItems := n\<rparr>)
     = search stage getDetailsWithPage minRating minReviews flt"
    unfolding search_def preFilter_maxItems processChunk_maxItems ..
  have d: "dedupe [firstListed, secondListed] = [firstListed, secondListed]"
    by (simp add: dedupe_def firstListed_def secondListed_def listed_def str_def)
  have p: "preFilter c 0 0 (plainFilters\<lparr>maxItems := 1\<rparr>) = Target" for c
    by (simp add: preFilter_def preCategoryRejects_def preBudgetRejects_def plainFilters_def)
  have c: "checkFilters item 0 (plainFilters\<lparr>maxItems := 1\<rparr>) = passedOutcome" for item
    by (simp add: checkFilters_def checkReviews_def checkAddress_def checkCategory_def
        checkBudget_def checkDays_def checkHours_def plainFilters_def)
  have s: "sortResults [mergeResult firstListed plainDetails, mergeResult secondListed plainDetails]
     = [mergeResult secondListed plainDetails, mergeResult firstListed plainDetails]"
    by (simp add: sortResults_def sortWith_def compareResults_def mergeResult_def listed_def
        firstListed_def secondListed_def plainDetails_def intOr0_small)
  have b: "search (Feed [firstListed, secondListed]) (\<lambda>u. Inr plainDetails) 0 0
      (plainFilters\<lparr>maxItems := 1\<rparr>)
     = Inr [mergeResult secondListed plainDetails, mergeResult firstListed plainDetails]"
    by (simp add: search_def d p c s numTabs_def maxItemsPerTab_def processChunk_def
        processItem_def passedOutcome_def Let_def)
  from a b show ?thesis by simp
qed

end
